theory Spec2Isabelle
  imports Main
begin

section \<open>The checkout GraphQL client (node/clients/checkout/index.ts)\<close>

subsection \<open>Data model\<close>

text \<open>
  \<^verbatim>\<open>GraphQLResponse<T>\<close> of the platform SDK has two optional fields that the client
  reads: \<^verbatim>\<open>data?: T\<close> and \<^verbatim>\<open>errors?: any[]\<close>. An absent field and a field holding
  \<^verbatim>\<open>null\<close> or \<^verbatim>\<open>undefined\<close> are both \<open>None\<close>: the code only tests them for truthiness
  or dereferences them. The entries of \<open>errors\<close> are never inspected, so their type is
  a parameter.
\<close>

record ('d, 'e) GraphQLResponse =
  data :: "'d option"
  errors :: "'e list option"

text \<open>
  \<^verbatim>\<open>class CustomGraphQLError extends Error\<close>: the message given to \<^verbatim>\<open>super\<close> and the
  extra field \<^verbatim>\<open>graphQLErrors\<close>.
\<close>

record 'e CustomGraphQLError =
  message :: string
  graphQLErrors :: "'e list"

text \<open>
  What a promise of this client can be rejected with: whatever the transport rejected
  with (\<open>'x\<close>), the error thrown by \<open>throwOnGraphQLErrors\<close>, or the \<^verbatim>\<open>TypeError\<close> the
  runtime raises when a property of \<^verbatim>\<open>null\<close> or \<^verbatim>\<open>undefined\<close> is read.
\<close>

datatype ('x, 'e) thrown =
  TransportRejection 'x
| GraphQLErrors "'e CustomGraphQLError"
| TypeError

subsection \<open>throwOnGraphQLErrors\<close>

text \<open>
  \<^verbatim>\<open>
  function throwOnGraphQLErrors(message) {
    return function maybeGraphQLResponse(response) {
      if (response && response.errors && response.errors.length > 0) {
        throw new CustomGraphQLError(message, response.errors)
      }
      return response
    }
  }
  \<close>
  The response itself may be \<^verbatim>\<open>null\<close> or \<^verbatim>\<open>undefined\<close> (\<open>None\<close>). An array is truthy
  even when it is empty, so the last conjunct alone separates \<open>Some []\<close> from a
  non-empty list. A throw is \<open>Inl\<close>, a return is \<open>Inr\<close>.
\<close>

definition throwOnGraphQLErrors ::
  "string \<Rightarrow> ('d, 'e) GraphQLResponse option \<Rightarrow>
     ('x, 'e) thrown + ('d, 'e) GraphQLResponse option" where
  "throwOnGraphQLErrors msg response =
     (case response of
        None \<Rightarrow> Inr response
      | Some r \<Rightarrow>
          (case errors r of
             None \<Rightarrow> Inr response
           | Some es \<Rightarrow>
               if length es > 0
               then Inl (GraphQLErrors \<lparr>message = msg, graphQLErrors = es\<rparr>)
               else Inr response))"

subsection \<open>The call wrappers of CheckoutIO\<close>

text \<open>
  The query documents are imported from \<^verbatim>\<open>./queries\<close>; only their names matter here.
\<close>

datatype document =
  GET_ORDERFORM_ITEMS_QUERY
| GET_ORDERFORM_QUERY
| UPDATE_CART_MUTATION

text \<open>
  The first argument of \<^verbatim>\<open>this.graphql.query\<close> and \<^verbatim>\<open>this.graphql.mutate\<close>: the
  document and the variables (\<^verbatim>\<open>orderFormId\<close>, and \<^verbatim>\<open>items\<close> for the mutation). The
  type \<open>'i\<close> stands for \<^verbatim>\<open>ItemInput\<close>.
\<close>

datatype 'i request =
  Query document string
| Mutate document string "'i list"

text \<open>
  The transport (\<^verbatim>\<open>this.graphql\<close>) is a capability of the platform: given the request
  and the metric tag of the second argument, its promise is rejected (\<open>Inl\<close>) or
  fulfilled with a response (\<open>Inr\<close>).
\<close>

type_synonym ('i, 'x, 'd, 'e) graphql =
  "'i request \<Rightarrow> string \<Rightarrow> 'x + ('d, 'e) GraphQLResponse option"

text \<open>
  \<^verbatim>\<open>promise.then(f)\<close> with a single callback: a rejection passes through, a fulfilled
  value goes to \<open>f\<close>, and a throw inside \<open>f\<close> rejects the resulting promise.
\<close>

definition promise_then :: "'t + 'a \<Rightarrow> ('a \<Rightarrow> 't + 'b) \<Rightarrow> 't + 'b" where
  "promise_then p f = (case p of Inl e \<Rightarrow> Inl e | Inr v \<Rightarrow> f v)"

text \<open>
  The shapes the projections read. \<^verbatim>\<open>PartialOrderFormItems\<close> is declared outside the
  client; the client reads \<^verbatim>\<open>data.orderForm.items\<close> of it and returns
  \<^verbatim>\<open>PartialItem[]\<close> (\<open>'it list\<close>). The other two operations are typed \<^verbatim>\<open>any\<close> and
  read \<^verbatim>\<open>data.orderForm\<close> as a \<^verbatim>\<open>PartialOrderForm\<close> (\<open>'o\<close>).
\<close>

record 'it ItemsOrderForm =
  items :: "'it list"

record 'o OrderFormData =
  orderForm :: 'o

text \<open>
  \<^verbatim>\<open>query.data!\<close>: the \<^verbatim>\<open>!\<close> is erased by the compiler, so reading \<^verbatim>\<open>.data\<close> of a
  null response, or \<^verbatim>\<open>.orderForm\<close> of an absent \<open>data\<close>, raises a \<^verbatim>\<open>TypeError\<close>
  at run time.
\<close>

definition data_bang ::
  "('d, 'e) GraphQLResponse option \<Rightarrow> ('x, 'e) thrown + 'd" where
  "data_bang query =
     (case query of
        None \<Rightarrow> Inl TypeError
      | Some q \<Rightarrow> (case data q of None \<Rightarrow> Inl TypeError | Some d \<Rightarrow> Inr d))"

definition reject_with :: "'x + 'a \<Rightarrow> ('x, 'e) thrown + 'a" where
  "reject_with p = (case p of Inl x \<Rightarrow> Inl (TransportRejection x) | Inr v \<Rightarrow> Inr v)"

definition getOrderFormItems ::
  "('i, 'x, 'it ItemsOrderForm OrderFormData, 'e) graphql \<Rightarrow> string \<Rightarrow>
     ('x, 'e) thrown + 'it list" where
  "getOrderFormItems graphql orderFormId =
     promise_then
       (promise_then
          (reject_with
             (graphql (Query GET_ORDERFORM_ITEMS_QUERY orderFormId) ''checkout-orderform''))
          (throwOnGraphQLErrors ''Error getting items data from vtex.checkout-graphql''))
       (\<lambda>query. promise_then (data_bang query) (\<lambda>d. Inr (items (orderForm d))))"

definition getOrderForm ::
  "('i, 'x, 'o OrderFormData, 'e) graphql \<Rightarrow> string \<Rightarrow> ('x, 'e) thrown + 'o" where
  "getOrderForm graphql orderFormId =
     promise_then
       (promise_then
          (reject_with
             (graphql (Query GET_ORDERFORM_QUERY orderFormId) ''checkout-orderform''))
          (throwOnGraphQLErrors ''Error getting data from vtex.checkout-graphql''))
       (\<lambda>query. promise_then (data_bang query) (\<lambda>d. Inr (orderForm d)))"

definition updateCart ::
  "('i, 'x, 'o OrderFormData, 'e) graphql \<Rightarrow> string \<Rightarrow> 'i list \<Rightarrow>
     ('x, 'e) thrown + 'o" where
  "updateCart graphql orderFormId its =
     promise_then
       (promise_then
          (reject_with
             (graphql (Mutate UPDATE_CART_MUTATION orderFormId its) ''checkout-update-items''))
          (throwOnGraphQLErrors ''Error updating items with vtex.checkout-graphql''))
       (\<lambda>query. promise_then (data_bang query) (\<lambda>d. Inr (orderForm d)))"

section \<open>The resolver getXCart (node/resolvers/getXCart.ts)\<close>

text \<open>
  The values the resolver handles are untyped at run time: the caught \<^verbatim>\<open>err\<close> is cast
  to \<^verbatim>\<open>any\<close> and probed, and the stored record is parsed JSON. Numbers are integers
  here: the only number the code compares with is the literal \<^verbatim>\<open>404\<close>.
\<close>

datatype js_value =
  JUndefined
| JNull
| JBool bool
| JNum int
| JStr string
| JObj "(string \<times> js_value) list"

text \<open>
  \<^verbatim>\<open>v?.k\<close>: \<^verbatim>\<open>undefined\<close> when \<open>v\<close> is \<^verbatim>\<open>null\<close> or \<^verbatim>\<open>undefined\<close>, the property
  otherwise. It is read at the names \<^verbatim>\<open>response\<close> and \<^verbatim>\<open>status\<close> only, which no
  boolean, number or string has; an object has the properties of its list.
\<close>

fun opt_chain :: "js_value \<Rightarrow> string \<Rightarrow> js_value" where
  "opt_chain (JObj props) k = (case map_of props k of None \<Rightarrow> JUndefined | Some v \<Rightarrow> v)"
| "opt_chain v k = JUndefined"

text \<open>
  \<^verbatim>\<open>ctx.clients.vbase.getJSON\<close>, a capability of the platform, takes two strings and
  a boolean; its promise is rejected with a thrown value (\<open>Inl\<close>) or fulfilled with
  the stored record (\<open>Inr\<close>).
\<close>

type_synonym vbase_getJSON = "string \<Rightarrow> string \<Rightarrow> bool \<Rightarrow> js_value + js_value"

text \<open>What the resolver does besides returning: console output and the store call.\<close>

datatype event =
  ConsoleLog "js_value list"
| GetJSON string string bool

text \<open>
  \<^verbatim>\<open>
  export const getXCart = async (_, { userId }, ctx) => {
    let orderformId
    try {
      console.log('-----------------NODE DEBUG-----------------------')
      orderformId = await ctx.clients.vbase.getJSON('vtex.cross-device-cart', userId, true)
      console.log(orderformId)
      return orderformId
    } catch (err) {
      console.log('----------------------------------------', err)
      const status = (err as any)?.response?.status
      if (status === 404) {
        return null
      }
      throw err
    }
  }
  \<close>
  The result is the outcome of the returned promise (\<open>Inl\<close> rejected, \<open>Inr\<close> fulfilled)
  and the events in the order they happen.
\<close>

definition getXCart ::
  "'r \<Rightarrow> string \<Rightarrow> vbase_getJSON \<Rightarrow> (js_value + js_value) \<times> event list" where
  "getXCart root userId getJSON =
     (let entry = [ConsoleLog [JStr ''-----------------NODE DEBUG-----------------------''],
                   GetJSON ''vtex.cross-device-cart'' userId True]
      in case getJSON ''vtex.cross-device-cart'' userId True of
           Inr orderformId \<Rightarrow> (Inr orderformId, entry @ [ConsoleLog [orderformId]])
         | Inl err \<Rightarrow>
             (let logged = entry @
                    [ConsoleLog [JStr ''----------------------------------------'', err]];
                  status = opt_chain (opt_chain err ''response'') ''status''
              in if status = JNum 404 then (Inr JNull, logged) else (Inl err, logged)))"

section \<open>Properties of throwOnGraphQLErrors\<close>

text \<open>
  C1. A response whose error list is non-empty makes the normalizer throw a
  \<open>CustomGraphQLError\<close> whose message is the context message and whose
  \<open>graphQLErrors\<close> is that error list, whatever \<open>data\<close> holds.
\<close>

theorem throwOnGraphQLErrors_nonempty:
  assumes "errors r = Some es" and "es \<noteq> []"
  shows "throwOnGraphQLErrors msg (Some r)
           = Inl (GraphQLErrors \<lparr>message = msg, graphQLErrors = es\<rparr>)"
  using assms by (simp add: throwOnGraphQLErrors_def)

theorem throwOnGraphQLErrors_nonempty_witness:
  "throwOnGraphQLErrors ''ctx''
      (Some \<lparr>data = Some (7::nat), errors = Some [''boom'', ''bang'']\<rparr>)
     = (Inl (GraphQLErrors \<lparr>message = ''ctx'', graphQLErrors = [''boom'', ''bang'']\<rparr>)
          :: (unit, string) thrown + (nat, string) GraphQLResponse option)"
proof -
  have e: "errors \<lparr>data = Some (7::nat), errors = Some [''boom'', ''bang'']\<rparr>
             = Some [''boom'', ''bang'']"
    by simp
  have n: "[''boom'', ''bang''] \<noteq> []"
    by simp
  show ?thesis
    by (rule throwOnGraphQLErrors_nonempty [OF e n])
qed

text \<open>
  C2. A response whose error list is absent or empty is returned as it is: on that path
  the normalizer is the identity, and \<open>data\<close> is not touched.
\<close>

theorem throwOnGraphQLErrors_identity:
  assumes "errors r = None \<or> errors r = Some []"
  shows "throwOnGraphQLErrors msg (Some r) = Inr (Some r)"
  using assms by (auto simp add: throwOnGraphQLErrors_def)

theorem throwOnGraphQLErrors_identity_witness:
  "throwOnGraphQLErrors ''ctx'' (Some \<lparr>data = Some (7::nat), errors = Some []\<rparr>)
     = (Inr (Some \<lparr>data = Some 7, errors = Some []\<rparr>)
          :: (unit, string) thrown + (nat, string) GraphQLResponse option)
   \<and> throwOnGraphQLErrors ''ctx'' (Some \<lparr>data = Some (7::nat), errors = None\<rparr>)
     = (Inr (Some \<lparr>data = Some 7, errors = None\<rparr>)
          :: (unit, string) thrown + (nat, string) GraphQLResponse option)"
proof
  have "errors \<lparr>data = Some (7::nat), errors = Some ([] :: string list)\<rparr> = None
        \<or> errors \<lparr>data = Some (7::nat), errors = Some ([] :: string list)\<rparr> = Some []"
    by simp
  then show "throwOnGraphQLErrors ''ctx'' (Some \<lparr>data = Some (7::nat), errors = Some []\<rparr>)
     = (Inr (Some \<lparr>data = Some 7, errors = Some []\<rparr>)
          :: (unit, string) thrown + (nat, string) GraphQLResponse option)"
    by (rule throwOnGraphQLErrors_identity)
next
  have "errors \<lparr>data = Some (7::nat), errors = (None :: string list option)\<rparr> = None
        \<or> errors \<lparr>data = Some (7::nat), errors = (None :: string list option)\<rparr> = Some []"
    by simp
  then show "throwOnGraphQLErrors ''ctx'' (Some \<lparr>data = Some (7::nat), errors = None\<rparr>)
     = (Inr (Some \<lparr>data = Some 7, errors = None\<rparr>)
          :: (unit, string) thrown + (nat, string) GraphQLResponse option)"
    by (rule throwOnGraphQLErrors_identity)
qed

text \<open>
  C10. The normalizer throws exactly when the response is present and its error list
  is non-empty. A null response is returned as it is, with no \<open>CustomGraphQLError\<close>;
  it fails only afterwards, when the projection reads \<open>data\<close> of it.
\<close>

theorem throwOnGraphQLErrors_throws_iff:
  "((\<exists>e :: ('x, 'e) thrown.
       throwOnGraphQLErrors msg (response :: ('d, 'e) GraphQLResponse option) = Inl e)
     \<longleftrightarrow> (\<exists>r es. response = Some r \<and> errors r = Some es \<and> es \<noteq> []))
   \<and> throwOnGraphQLErrors msg (None :: ('d, 'e) GraphQLResponse option)
       = (Inr None :: ('x, 'e) thrown + ('d, 'e) GraphQLResponse option)
   \<and> data_bang (None :: ('d, 'e) GraphQLResponse option)
       = (Inl TypeError :: ('x, 'e) thrown + 'd)"
proof (intro conjI)
  show "(\<exists>e :: ('x, 'e) thrown. throwOnGraphQLErrors msg response = Inl e)
          \<longleftrightarrow> (\<exists>r es. response = Some r \<and> errors r = Some es \<and> es \<noteq> [])"
  proof (cases response)
    case None
    then show ?thesis by (simp add: throwOnGraphQLErrors_def)
  next
    case (Some r)
    then show ?thesis
      by (cases "errors r") (simp_all add: throwOnGraphQLErrors_def)
  qed
next
  show "throwOnGraphQLErrors msg (None :: ('d, 'e) GraphQLResponse option)
          = (Inr None :: ('x, 'e) thrown + ('d, 'e) GraphQLResponse option)"
    by (simp add: throwOnGraphQLErrors_def)
next
  show "data_bang (None :: ('d, 'e) GraphQLResponse option)
          = (Inl TypeError :: ('x, 'e) thrown + 'd)"
    by (simp add: data_bang_def)
qed

theorem throwOnGraphQLErrors_throws_iff_witness:
  "(\<exists>e :: (unit, string) thrown.
      throwOnGraphQLErrors ''ctx''
        (Some \<lparr>data = Some (7::nat), errors = Some [''boom'']\<rparr>) = Inl e)
   \<and> \<not> (\<exists>e :: (unit, string) thrown.
      throwOnGraphQLErrors ''ctx''
        (Some \<lparr>data = Some (7::nat), errors = Some []\<rparr>) = Inl e)
   \<and> \<not> (\<exists>e :: (unit, string) thrown.
      throwOnGraphQLErrors ''ctx'' (None :: (nat, string) GraphQLResponse option) = Inl e)"
  using
    throwOnGraphQLErrors_throws_iff
      [where ?'x = unit and msg = "''ctx''"
         and response = "Some \<lparr>data = Some (7::nat), errors = Some [''boom'']\<rparr>"]
    throwOnGraphQLErrors_throws_iff
      [where ?'x = unit and msg = "''ctx''"
         and response = "Some \<lparr>data = Some (7::nat), errors = Some ([] :: string list)\<rparr>"]
    throwOnGraphQLErrors_throws_iff
      [where ?'x = unit and msg = "''ctx''"
         and response = "None :: (nat, string) GraphQLResponse option"]
  by simp

section \<open>Properties of the call wrappers\<close>

text \<open>What each wrapper does once the transport has fulfilled its promise.\<close>

lemma promise_then_Inr: "promise_then (Inr v) f = f v"
  by (simp add: promise_then_def)

lemma promise_then_Inl: "promise_then (Inl e) f = Inl e"
  by (simp add: promise_then_def)

lemma reject_with_Inr: "reject_with (Inr v) = Inr v"
  by (simp add: reject_with_def)

lemma normalize_no_errors:
  "errors r = None \<or> errors r = Some [] \<Longrightarrow> throwOnGraphQLErrors msg (Some r) = Inr (Some r)"
  by (auto simp add: throwOnGraphQLErrors_def)

lemma normalize_errors:
  "errors r = Some es \<Longrightarrow> es \<noteq> [] \<Longrightarrow>
     throwOnGraphQLErrors msg (Some r)
       = Inl (GraphQLErrors \<lparr>message = msg, graphQLErrors = es\<rparr>)"
  by (simp add: throwOnGraphQLErrors_def)

lemma data_bang_Some: "data_bang (Some r) = (case data r of None \<Rightarrow> Inl TypeError | Some d \<Rightarrow> Inr d)"
  by (simp add: data_bang_def)

text \<open>
  C5. When the transport answers \<open>updateCart\<close> with a response that carries errors, the
  wrapper rejects with a \<open>CustomGraphQLError\<close> whose \<open>graphQLErrors\<close> is that list and
  whose message is the update-cart context string of the source.
\<close>

theorem updateCart_errors:
  assumes "graphql (Mutate UPDATE_CART_MUTATION orderFormId its) ''checkout-update-items''
             = Inr (Some r)"
    and "errors r = Some es"
    and "es \<noteq> []"
  shows "updateCart graphql orderFormId its
           = Inl (GraphQLErrors
                \<lparr>message = ''Error updating items with vtex.checkout-graphql'',
                 graphQLErrors = es\<rparr>)"
  using assms
  by (simp add: updateCart_def reject_with_Inr promise_then_Inr promise_then_Inl
        normalize_errors)

text \<open>
  The scenario of the specification: \<^verbatim>\<open>updateCart("of-1", [{id:"sku1", quantity:2}])\<close>
  answered with \<^verbatim>\<open>{data:null, errors:[{message:"out of stock"}]}\<close>.
\<close>

theorem updateCart_errors_witness:
  "updateCart
     (\<lambda>(req :: js_value request) metric. Inr (Some \<lparr>data = None,
                                errors = Some [JObj [(''message'', JStr ''out of stock'')]]\<rparr>))
     ''of-1'' [JObj [(''id'', JStr ''sku1''), (''quantity'', JNum 2)]]
   = (Inl (GraphQLErrors
        \<lparr>message = ''Error updating items with vtex.checkout-graphql'',
         graphQLErrors = [JObj [(''message'', JStr ''out of stock'')]]\<rparr>)
       :: (unit, js_value) thrown + nat)"
  by (rule updateCart_errors
        [where r = "\<lparr>data = None,
                       errors = Some [JObj [(''message'', JStr ''out of stock'')]]\<rparr>"])
     simp_all

text \<open>
  C6. When the transport answers \<open>getOrderFormItems\<close> with an empty error list and
  populated data, the wrapper resolves to \<open>data.orderForm.items\<close> of that response.
\<close>

theorem getOrderFormItems_items:
  assumes "graphql (Query GET_ORDERFORM_ITEMS_QUERY orderFormId) ''checkout-orderform''
             = Inr (Some r)"
    and "errors r = Some []"
    and "data r = Some d"
  shows "getOrderFormItems graphql orderFormId = Inr (items (orderForm d))"
  using assms
  by (simp add: getOrderFormItems_def reject_with_Inr promise_then_Inr
        normalize_no_errors data_bang_Some)

text \<open>
  The scenario of the specification: \<^verbatim>\<open>getOrderFormItems("of-1")\<close> answered with
  \<^verbatim>\<open>{data:{orderForm:{items:[{id:"sku1"}]}}, errors:[]}\<close>.
\<close>

theorem getOrderFormItems_items_witness:
  "getOrderFormItems
     (\<lambda>(req :: unit request) metric. Inr (Some
        \<lparr>data = Some \<lparr>orderForm = \<lparr>items = [JObj [(''id'', JStr ''sku1'')]]\<rparr>\<rparr>,
         errors = Some ([] :: js_value list)\<rparr>))
     ''of-1''
   = (Inr [JObj [(''id'', JStr ''sku1'')]] :: (unit, js_value) thrown + js_value list)"
  by (rule getOrderFormItems_items
        [where r = "\<lparr>data = Some \<lparr>orderForm = \<lparr>items = [JObj [(''id'', JStr ''sku1'')]]\<rparr>\<rparr>,
                       errors = Some ([] :: js_value list)\<rparr>"
           and d = "\<lparr>orderForm = \<lparr>items = [JObj [(''id'', JStr ''sku1'')]]\<rparr>\<rparr>",
         simplified])
     simp_all

text \<open>
  C7. For each of the three wrappers: when the response has no errors and no \<open>data\<close>,
  the projection raises (a \<open>TypeError\<close>), and the wrapper's promise is rejected with it
  rather than fulfilled with an absence value.
\<close>

theorem wrappers_missing_data:
  "(gi (Query GET_ORDERFORM_ITEMS_QUERY orderFormId) ''checkout-orderform'' = Inr (Some ri)
      \<and> (errors ri = None \<or> errors ri = Some []) \<and> data ri = None
      \<longrightarrow> getOrderFormItems gi orderFormId = Inl TypeError)
   \<and> (gf (Query GET_ORDERFORM_QUERY orderFormId) ''checkout-orderform'' = Inr (Some rf)
      \<and> (errors rf = None \<or> errors rf = Some []) \<and> data rf = None
      \<longrightarrow> getOrderForm gf orderFormId = Inl TypeError)
   \<and> (gu (Mutate UPDATE_CART_MUTATION orderFormId its) ''checkout-update-items''
        = Inr (Some ru)
      \<and> (errors ru = None \<or> errors ru = Some []) \<and> data ru = None
      \<longrightarrow> updateCart gu orderFormId its = Inl TypeError)"
proof (intro conjI impI)
  assume "gi (Query GET_ORDERFORM_ITEMS_QUERY orderFormId) ''checkout-orderform''
            = Inr (Some ri)
          \<and> (errors ri = None \<or> errors ri = Some []) \<and> data ri = None"
  then show "getOrderFormItems gi orderFormId = Inl TypeError"
    by (simp add: getOrderFormItems_def reject_with_Inr promise_then_Inr promise_then_Inl
          normalize_no_errors data_bang_Some)
next
  assume "gf (Query GET_ORDERFORM_QUERY orderFormId) ''checkout-orderform'' = Inr (Some rf)
          \<and> (errors rf = None \<or> errors rf = Some []) \<and> data rf = None"
  then show "getOrderForm gf orderFormId = Inl TypeError"
    by (simp add: getOrderForm_def reject_with_Inr promise_then_Inr promise_then_Inl
          normalize_no_errors data_bang_Some)
next
  assume "gu (Mutate UPDATE_CART_MUTATION orderFormId its) ''checkout-update-items''
            = Inr (Some ru)
          \<and> (errors ru = None \<or> errors ru = Some []) \<and> data ru = None"
  then show "updateCart gu orderFormId its = Inl TypeError"
    by (simp add: updateCart_def reject_with_Inr promise_then_Inr promise_then_Inl
          normalize_no_errors data_bang_Some)
qed

theorem wrappers_missing_data_witness:
  "getOrderFormItems
     (\<lambda>(req :: unit request) metric.
        Inr (Some \<lparr>data = None, errors = Some ([] :: string list)\<rparr>)) ''of-1''
     = (Inl TypeError :: (unit, string) thrown + nat list)
   \<and> getOrderForm
     (\<lambda>(req :: unit request) metric.
        Inr (Some \<lparr>data = None, errors = (None :: string list option)\<rparr>)) ''of-1''
     = (Inl TypeError :: (unit, string) thrown + nat)
   \<and> updateCart
     (\<lambda>(req :: unit request) metric.
        Inr (Some \<lparr>data = None, errors = Some ([] :: string list)\<rparr>)) ''of-1'' [()]
     = (Inl TypeError :: (unit, string) thrown + nat)"
  using wrappers_missing_data
    [where gi = "\<lambda>(req :: unit request) metric.
                   Inr (Some \<lparr>data = None, errors = Some ([] :: string list)\<rparr>)"
       and ri = "\<lparr>data = None, errors = Some ([] :: string list)\<rparr>"
       and gf = "\<lambda>(req :: unit request) metric.
                   Inr (Some \<lparr>data = None, errors = (None :: string list option)\<rparr>)"
       and rf = "\<lparr>data = None, errors = (None :: string list option)\<rparr>"
       and gu = "\<lambda>(req :: unit request) metric.
                   Inr (Some \<lparr>data = None, errors = Some ([] :: string list)\<rparr>)"
       and ru = "\<lparr>data = None, errors = Some ([] :: string list)\<rparr>"
       and orderFormId = "''of-1''" and its = "[()]"]
  by simp

section \<open>Properties of getXCart\<close>

text \<open>
  C3. When the store call fails with a value whose \<^verbatim>\<open>response.status\<close> is the number
  404, the resolver's promise is fulfilled with \<^verbatim>\<open>null\<close>; nothing is rejected.
\<close>

theorem getXCart_not_found:
  assumes "getJSON ''vtex.cross-device-cart'' userId True = Inl err"
    and "opt_chain (opt_chain err ''response'') ''status'' = JNum 404"
  shows "fst (getXCart root userId getJSON) = Inr JNull"
  using assms by (simp add: getXCart_def Let_def)

text \<open>
  The scenario of the specification: \<^verbatim>\<open>lookupCart("user-42")\<close> where the store
  throws \<^verbatim>\<open>{response:{status:404}}\<close>.
\<close>

theorem getXCart_not_found_witness:
  "fst (getXCart ()
     ''user-42'' (\<lambda>bucket path flag. Inl (JObj [(''response'', JObj [(''status'', JNum 404)])])))
   = Inr JNull"
  by (rule getXCart_not_found
        [where err = "JObj [(''response'', JObj [(''status'', JNum 404)])]"])
     simp_all

text \<open>
  C4. When the store call fails with a value whose \<^verbatim>\<open>response.status\<close> is anything but
  the number 404 (a missing \<^verbatim>\<open>response\<close> or \<^verbatim>\<open>status\<close> reads as \<^verbatim>\<open>undefined\<close>), the
  resolver's promise is rejected with that same value, and the store has been called
  once.
\<close>

theorem getXCart_rethrows:
  assumes "getJSON ''vtex.cross-device-cart'' userId True = Inl err"
    and "opt_chain (opt_chain err ''response'') ''status'' \<noteq> JNum 404"
  shows "getXCart root userId getJSON
           = (Inl err,
              [ConsoleLog [JStr ''-----------------NODE DEBUG-----------------------''],
               GetJSON ''vtex.cross-device-cart'' userId True,
               ConsoleLog [JStr ''----------------------------------------'', err]])"
  using assms by (simp add: getXCart_def Let_def)

text \<open>
  The scenario of the specification, a store that throws \<^verbatim>\<open>{response:{status:500}}\<close>,
  and a thrown value with no status at all.
\<close>

theorem getXCart_rethrows_witness:
  "fst (getXCart ()
     ''user-42'' (\<lambda>bucket path flag. Inl (JObj [(''response'', JObj [(''status'', JNum 500)])])))
     = Inl (JObj [(''response'', JObj [(''status'', JNum 500)])])
   \<and> fst (getXCart () ''user-42'' (\<lambda>bucket path flag. Inl (JStr ''timeout'')))
     = Inl (JStr ''timeout'')"
  using
    getXCart_rethrows
      [where root = "()" and userId = "''user-42''"
         and getJSON = "\<lambda>bucket path flag.
                          Inl (JObj [(''response'', JObj [(''status'', JNum 500)])])"
         and err = "JObj [(''response'', JObj [(''status'', JNum 500)])]"]
    getXCart_rethrows
      [where root = "()" and userId = "''user-42''"
         and getJSON = "\<lambda>bucket path flag. Inl (JStr ''timeout'')"
         and err = "JStr ''timeout''"]
  by simp

text \<open>
  C8. The resolver calls the store once, with the namespace \<^verbatim>\<open>vtex.cross-device-cart\<close>,
  the \<open>userId\<close> as key and \<^verbatim>\<open>true\<close> as third argument; when that call succeeds, the
  promise is fulfilled with the value the store gave, as it is.
\<close>

theorem getXCart_success:
  assumes "getJSON ''vtex.cross-device-cart'' userId True = Inr v"
  shows "getXCart root userId getJSON
           = (Inr v,
              [ConsoleLog [JStr ''-----------------NODE DEBUG-----------------------''],
               GetJSON ''vtex.cross-device-cart'' userId True,
               ConsoleLog [v]])"
  using assms by (simp add: getXCart_def Let_def)

theorem getXCart_success_witness:
  "getXCart () ''user-42''
     (\<lambda>bucket path flag.
        if bucket = ''vtex.cross-device-cart'' \<and> path = ''user-42'' \<and> flag
        then Inr (JObj [(''orderformId'', JStr ''of-1'')])
        else Inl JUndefined)
   = (Inr (JObj [(''orderformId'', JStr ''of-1'')]),
      [ConsoleLog [JStr ''-----------------NODE DEBUG-----------------------''],
       GetJSON ''vtex.cross-device-cart'' ''user-42'' True,
       ConsoleLog [JObj [(''orderformId'', JStr ''of-1'')]]])"
  by (rule getXCart_success) simp

end
